theory Spec2Isabelle
  imports Main "HOL-Library.Sublist"
begin

section \<open>The bundling script \<open>netbox/project-static/bundle.js\<close>\<close>

text \<open>
  The script configures three external tools (esbuild, fast-glob, PurgeCSS) and the
  file system of Node. Everything it does itself is: build option records, read the
  command line, call the tools in sequence, catch what they throw and print messages.
  The embedding keeps the tools as parameters (a record \<open>env\<close> of functions) and
  records every action of the script in a trace of events.
\<close>

subsection \<open>Values\<close>

text \<open>A thrown JavaScript value. The tools' errors are opaque to the script.\<close>

datatype js_error = Error string | TypeError string

text \<open>The file system: a path holds a content or does not exist.\<close>

type_synonym file_system = "string \<Rightarrow> string option"

text \<open>\<open>sourcemap: 'external'\<close> and \<open>sourcemap: false\<close>.\<close>

datatype sourcemap_option = SourcemapExternal | SourcemapFalse

text \<open>
  The option object given to \<open>sassPlugin\<close>. \<open>cache = None\<close>: the property is not set.
\<close>

record sass_options =
  outputStyle :: string
  cache :: "bool option"

text \<open>
  The option object given to \<open>purgecssPlugin\<close>: \<open>{ safelist: { greedy: [...] } }\<close>, the
  regular expressions by their source text; \<open>None\<close> is the default \<open>{}\<close>.
\<close>

record purgecss_options =
  safelist_greedy :: "string list option"

datatype plugin = SassPlugin sass_options | PurgecssPlugin purgecss_options

text \<open>
  The option object of \<open>esbuild.build\<close>. An object literal keeps its keys in insertion
  order (\<open>Object.entries\<close>), so \<open>entryPoints\<close>, \<open>define\<close> and \<open>loader\<close> are association
  lists. \<open>None\<close> and \<open>[]\<close> stand for a property that is not set.
\<close>

record build_options =
  outdir :: string
  bundle_flag :: bool
  minify :: bool
  sourcemap :: sourcemap_option
  sourcesContent :: bool
  logLevel :: string
  entryPoints :: "(string \<times> string) list"
  target :: "string option"
  define_globals :: "(string \<times> string) list"
  metafile :: "bool option"
  plugins :: "plugin list"
  loader :: "(string \<times> string) list"

text \<open>
  What the script reads of a build result: \<open>result.errors\<close> and, in the plugin,
  \<open>Object.keys(args.metafile.outputs)\<close>; \<open>metafile_outputs = None\<close> when the result has
  no \<open>metafile\<close>.
\<close>

record build_result =
  errors :: "string list"
  metafile_outputs :: "string list option"

text \<open>The second argument of \<open>glob\<close>.\<close>

record glob_options =
  ignore :: "string list"
  absolute :: bool

text \<open>The argument of \<open>purgeCSS.purge\<close>: \<open>{ ...options, content, css }\<close>.\<close>

record purge_args =
  purge_options :: purgecss_options
  content :: "string list"
  css :: "string list"

text \<open>
  The script's own actions, in the order they happen: the calls of the external tools
  with their arguments, the writes to the file system, and the two console streams.
\<close>

datatype event =
    Build build_options
  | Glob "string list" glob_options
  | Purge purge_args
  | WriteFile string string
  | ConsoleLog string
  | ConsoleError js_error

record state =
  files :: file_system
  trace :: "event list"

text \<open>
  The external tools. Each one sees the whole state (so it may answer differently at
  each call); \<open>esbuild.build\<close> also changes the file system. A result of PurgeCSS is a
  pair \<open>(file, css)\<close>. \<open>writeFile_error\<close> says whether \<open>fs.promises.writeFile\<close> rejects.
\<close>

record env =
  esbuild_build :: "build_options \<Rightarrow> state \<Rightarrow> (js_error + build_result) \<times> file_system"
  fast_glob :: "string list \<Rightarrow> glob_options \<Rightarrow> state \<Rightarrow> js_error + string list"
  purgecss_purge :: "purge_args \<Rightarrow> state \<Rightarrow> js_error + (string \<times> string) list"
  writeFile_error :: "string \<Rightarrow> string \<Rightarrow> state \<Rightarrow> js_error option"

subsection \<open>Control: async functions, await, throw, try/catch\<close>

text \<open>
  An async function that is awaited at once is a computation on the state that returns
  a value (\<open>Inr\<close>) or throws (\<open>Inl\<close>).
\<close>

type_synonym 'a js = "state \<Rightarrow> (js_error + 'a) \<times> state"

definition return_js :: "'a \<Rightarrow> 'a js" where
  "return_js x s = (Inr x, s)"

definition throw :: "js_error \<Rightarrow> 'a js" where
  "throw e s = (Inl e, s)"

definition await :: "'a js \<Rightarrow> ('a \<Rightarrow> 'b js) \<Rightarrow> 'b js" where
  "await m f s = (case m s of (Inl e, s') \<Rightarrow> (Inl e, s') | (Inr x, s') \<Rightarrow> f x s')"

definition try_catch :: "unit js \<Rightarrow> (js_error \<Rightarrow> unit js) \<Rightarrow> unit js" where
  "try_catch body handler s =
     (case body s of (Inl e, s') \<Rightarrow> handler e s' | (Inr x, s') \<Rightarrow> (Inr x, s'))"

primrec for_of :: "'a list \<Rightarrow> ('a \<Rightarrow> unit js) \<Rightarrow> unit js" where
  "for_of [] body = return_js ()"
| "for_of (x # xs) body = await (body x) (\<lambda>_. for_of xs body)"

definition emit :: "event \<Rightarrow> state \<Rightarrow> state" where
  "emit e s = s\<lparr>trace := trace s @ [e]\<rparr>"

definition console_log :: "string \<Rightarrow> unit js" where
  "console_log msg s = (Inr (), emit (ConsoleLog msg) s)"

definition console_error :: "js_error \<Rightarrow> unit js" where
  "console_error err s = (Inr (), emit (ConsoleError err) s)"

definition build :: "env \<Rightarrow> build_options \<Rightarrow> build_result js" where
  "build env opts s =
     (let s1 = emit (Build opts) s in
      case esbuild_build env opts s1 of (r, fs) \<Rightarrow> (r, s1\<lparr>files := fs\<rparr>))"

definition glob :: "env \<Rightarrow> string list \<Rightarrow> glob_options \<Rightarrow> (string list) js" where
  "glob env patterns gopts s =
     (let s1 = emit (Glob patterns gopts) s in (fast_glob env patterns gopts s1, s1))"

definition purge :: "env \<Rightarrow> purge_args \<Rightarrow> ((string \<times> string) list) js" where
  "purge env args s =
     (let s1 = emit (Purge args) s in (purgecss_purge env args s1, s1))"

definition writeFile :: "env \<Rightarrow> string \<Rightarrow> string \<Rightarrow> unit js" where
  "writeFile env path data s =
     (let s1 = emit (WriteFile path data) s in
      case writeFile_error env path data s1 of
        Some e \<Rightarrow> (Inl e, s1)
      | None \<Rightarrow> (Inr (), s1\<lparr>files := (files s1)(path \<mapsto> data)\<rparr>))"

subsection \<open>Strings\<close>

text \<open>\<open>k.endsWith(suf)\<close>.\<close>

definition endsWith :: "string \<Rightarrow> string \<Rightarrow> bool" where
  "endsWith k suf = (length suf \<le> length k \<and> drop (length k - length suf) k = suf)"

text \<open>\<open>s.split(sep)\<close> for a separator of one character.\<close>

fun split_js :: "char \<Rightarrow> string \<Rightarrow> string list" where
  "split_js sep [] = [[]]"
| "split_js sep (c # cs) =
     (if c = sep then [] # split_js sep cs
      else (case split_js sep cs of [] \<Rightarrow> [[c]] | w # ws \<Rightarrow> (c # w) # ws))"

text \<open>\<open>xs[i]\<close>: \<open>undefined\<close> out of range.\<close>

fun index_js :: "'a list \<Rightarrow> nat \<Rightarrow> 'a option" where
  "index_js [] i = None"
| "index_js (x # xs) 0 = Some x"
| "index_js (x # xs) (Suc i) = index_js xs i"

text \<open>A value inside a template literal: \<open>undefined\<close> prints as its name.\<close>

definition template :: "string option \<Rightarrow> string" where
  "template v = (case v of None \<Rightarrow> ''undefined'' | Some s \<Rightarrow> s)"

text \<open>The check mark U+2705 that starts each message, in UTF-8, and the apostrophe.\<close>

definition check_mark :: string where
  "check_mark = [CHR 0xE2, CHR 0x9C, CHR 0x85]"

definition apostrophe :: string where
  "apostrophe = [CHR 0x27]"

definition bundled_message :: "string \<Rightarrow> string \<Rightarrow> string" where
  "bundled_message source out =
     check_mark @ '' Bundled source file '' @ apostrophe @ source @ apostrophe
       @ '' to '' @ apostrophe @ out @ apostrophe"

subsection \<open>The script\<close>

text \<open>Bundler options common to all bundle jobs.\<close>

definition options :: build_options where
  "options =
     \<lparr>outdir = ''./dist'', bundle_flag = True, minify = True,
      sourcemap = SourcemapExternal, sourcesContent = False, logLevel = ''error'',
      entryPoints = [], target = None, define_globals = [], metafile = None,
      plugins = [], loader = []\<rparr>"

text \<open>The plugin \<open>purgecssPlugin\<close>: the globs of the files scanned for selectors.\<close>

definition content_patterns :: "string list" where
  "content_patterns =
     [''../../**/*.html'',
      ''../../**/*.py'',
      ''./src/**/*.ts'',
      ''./node_modules/bootstrap/js/src/*.{js,ts}'',
      ''./node_modules/slim-select/src/**/*.{js,ts}'']"

definition content_glob_options :: glob_options where
  "content_glob_options = \<lparr>ignore = [''**/test_*.py'', ''**/__tests__/**''], absolute = True\<rparr>"

definition purgecss_onEnd :: "purgecss_options \<Rightarrow> env \<Rightarrow> build_result \<Rightarrow> unit js" where
  "purgecss_onEnd popts env args =
     (case metafile_outputs args of
        None \<Rightarrow> throw (TypeError ''Cannot read properties of undefined (reading 'outputs')'')
      | Some outputKeys \<Rightarrow>
          (let css_keys = filter (\<lambda>k. endsWith k ''.css'') outputKeys in
           await (glob env content_patterns content_glob_options) (\<lambda>found.
           await (purge env \<lparr>purge_options = popts, content = found, css = css_keys\<rparr>) (\<lambda>res.
           for_of res (\<lambda>(file, data). writeFile env file data)))))"

text \<open>
  \<open>setup(build)\<close> of the plugin: it throws, or registers one \<open>onEnd\<close> callback, which is
  what the model returns.
\<close>

definition purgecss_setup ::
  "purgecss_options \<Rightarrow> build_options \<Rightarrow> js_error + (env \<Rightarrow> build_result \<Rightarrow> unit js) list" where
  "purgecss_setup popts initialOptions =
     (if metafile initialOptions \<noteq> Some True
      then Inl (Error ''`metafile` must be set to true in esbuild configuration'')
      else Inr [purgecss_onEnd popts])"

definition graphiql_build_options :: build_options where
  "graphiql_build_options =
     options\<lparr>entryPoints := [(''graphiql'', ''netbox-graphiql/index.ts'')],
             target := Some ''es2016'',
             define_globals := [(''global'', ''window'')]\<rparr>"

definition bundleGraphIQL :: "env \<Rightarrow> unit js" where
  "bundleGraphIQL env =
     try_catch
       (await (build env graphiql_build_options) (\<lambda>result.
          if length (errors result) = 0
          then console_log (bundled_message ''netbox-graphiql/index.ts'' ''graphiql.js'')
          else return_js ()))
       (\<lambda>err. console_error err)"

definition netbox_entryPoints :: "(string \<times> string) list" where
  "netbox_entryPoints =
     [(''netbox'', ''src/index.ts''),
      (''lldp'', ''src/device/lldp.ts''),
      (''config'', ''src/device/config.ts''),
      (''status'', ''src/device/status.ts'')]"

definition netbox_build_options :: build_options where
  "netbox_build_options =
     options\<lparr>entryPoints := netbox_entryPoints, target := Some ''es2016''\<rparr>"

text \<open>The body of the two reporting loops; \<open>ext\<close> is \<open>.js\<close> or \<open>.css\<close>.\<close>

definition report_bundled :: "string \<Rightarrow> string \<times> string \<Rightarrow> unit js" where
  "report_bundled ext = (\<lambda>(targetName, sourceName).
     (let source = index_js (split_js CHR ''/'' sourceName) 1 in
      console_log (bundled_message (template source) (targetName @ ext))))"

definition bundleNetBox :: "env \<Rightarrow> unit js" where
  "bundleNetBox env =
     try_catch
       (await (build env netbox_build_options) (\<lambda>result.
          if length (errors result) = 0
          then for_of netbox_entryPoints (report_bundled ''.js'')
          else return_js ()))
       (\<lambda>err. console_error err)"

definition bundleScripts :: "env \<Rightarrow> unit js" where
  "bundleScripts env = for_of [bundleNetBox env, bundleGraphIQL env] (\<lambda>bundle. bundle)"

definition styles_entryPoints :: "(string \<times> string) list" where
  "styles_entryPoints =
     [(''netbox-external'', ''styles/_external.scss''),
      (''netbox-light'', ''styles/_light.scss''),
      (''netbox-dark'', ''styles/_dark.scss''),
      (''netbox-print'', ''styles/_print.scss''),
      (''rack_elevation'', ''styles/_rack_elevation.scss''),
      (''cable_trace'', ''styles/_cable_trace.scss''),
      (''graphiql'', ''netbox-graphiql/graphiql.scss'')]"

definition pluginOptions :: "string list \<Rightarrow> sass_options" where
  "pluginOptions ARGS =
     (let pluginOptions = \<lparr>outputStyle = ''compressed'', cache = None\<rparr> in
      if ''--no-cache'' \<in> set ARGS then pluginOptions\<lparr>cache := Some False\<rparr> else pluginOptions)"

definition styles_purgecss_options :: purgecss_options where
  "styles_purgecss_options = \<lparr>safelist_greedy = Some [''^ss-'', ''^dropdown-'']\<rparr>"

definition styles_build_options :: "string list \<Rightarrow> build_options" where
  "styles_build_options ARGS =
     options\<lparr>sourcemap := SourcemapFalse,
             entryPoints := styles_entryPoints,
             metafile := Some True,
             plugins := [SassPlugin (pluginOptions ARGS), PurgecssPlugin styles_purgecss_options],
             loader := [(''.eot'', ''file''), (''.woff'', ''file''), (''.woff2'', ''file''),
                        (''.svg'', ''file''), (''.ttf'', ''file'')]\<rparr>"

definition bundleStyles :: "string list \<Rightarrow> env \<Rightarrow> unit js" where
  "bundleStyles ARGS env =
     try_catch
       (await (build env (styles_build_options ARGS)) (\<lambda>result.
          if length (errors result) = 0
          then for_of styles_entryPoints (report_bundled ''.css'')
          else return_js ()))
       (\<lambda>err. console_error err)"

text \<open>Run all bundle jobs. \<open>ARGS\<close> is \<open>process.argv.slice(2)\<close>.\<close>

definition bundleAll :: "string list \<Rightarrow> env \<Rightarrow> unit js" where
  "bundleAll ARGS env =
     (if ''--styles'' \<in> set ARGS then bundleStyles ARGS env
      else if ''--scripts'' \<in> set ARGS then bundleScripts env
      else await (bundleStyles ARGS env) (\<lambda>_. await (bundleScripts env) (\<lambda>_. return_js ())))"

text \<open>
  The last statement of the script, \<open>bundleAll();\<close>. The promise is neither awaited nor
  caught and the script sets no exit code: the process ends with code 0 unless the
  promise rejects, which Node reports as an unhandled rejection with code 1.
\<close>

definition main :: "string list \<Rightarrow> env \<Rightarrow> state \<Rightarrow> nat \<times> state" where
  "main ARGS env s =
     (case bundleAll ARGS env s of (Inl e, s') \<Rightarrow> (1, s') | (Inr u, s') \<Rightarrow> (0, s'))"

subsection \<open>Observing a run\<close>

text \<open>The events a computation adds to the trace when it runs from \<open>s\<close>.\<close>

definition events_of :: "'a js \<Rightarrow> state \<Rightarrow> event list" where
  "events_of m s = drop (length (trace s)) (trace (snd (m s)))"

text \<open>The calls of \<open>esbuild.build\<close> in a trace, by their option objects.\<close>

fun builds :: "event list \<Rightarrow> build_options list" where
  "builds [] = []"
| "builds (Build opts # es) = opts # builds es"
| "builds (e # es) = builds es"

text \<open>What the script prints itself: the events of the two console streams.\<close>

fun printed :: "event list \<Rightarrow> event list" where
  "printed [] = []"
| "printed (ConsoleLog msg # es) = ConsoleLog msg # printed es"
| "printed (ConsoleError err # es) = ConsoleError err # printed es"
| "printed (e # es) = printed es"

text \<open>The files a trace writes, first write first.\<close>

fun writes :: "event list \<Rightarrow> (string \<times> string) list" where
  "writes [] = []"
| "writes (WriteFile path data # es) = (path, data) # writes es"
| "writes (e # es) = writes es"

text \<open>The calls of \<open>purgeCSS.purge\<close> and of \<open>glob\<close> in a trace, by their arguments.\<close>

fun purges :: "event list \<Rightarrow> purge_args list" where
  "purges [] = []"
| "purges (Purge args # es) = args # purges es"
| "purges (e # es) = purges es"

fun globs :: "event list \<Rightarrow> (string list \<times> glob_options) list" where
  "globs [] = []"
| "globs (Glob patterns gopts # es) = (patterns, gopts) # globs es"
| "globs (e # es) = globs es"

text \<open>The completion messages of a phase, one for each entry point, in order.\<close>

definition completion_messages :: "string \<Rightarrow> (string \<times> string) list \<Rightarrow> event list" where
  "completion_messages ext eps =
     map (\<lambda>(targetName, sourceName).
            ConsoleLog (bundled_message (template (index_js (split_js CHR ''/'' sourceName) 1))
                          (targetName @ ext))) eps"

subsection \<open>Concrete environments\<close>

definition state0 :: state where
  "state0 = \<lparr>files = Map.empty, trace = []\<rparr>"

text \<open>Every tool succeeds: the build has no errors and lists two outputs.\<close>

definition env_ok :: env where
  "env_ok =
     \<lparr>esbuild_build = (\<lambda>opts s.
         (Inr \<lparr>errors = [], metafile_outputs = Some [''dist/netbox-light.css'', ''dist/netbox.js'']\<rparr>,
          files s)),
      fast_glob = (\<lambda>patterns gopts s. Inr [''/opt/netbox/netbox/templates/base.html'']),
      purgecss_purge = (\<lambda>args s. Inr (map (\<lambda>f. (f, ''.navbar{margin:0}'')) (css args))),
      writeFile_error = (\<lambda>path data s. None)\<rparr>"

text \<open>The build rejects.\<close>

definition env_throw :: env where
  "env_throw = env_ok\<lparr>esbuild_build := (\<lambda>opts s. (Inl (Error ''Build failed''), files s))\<rparr>"

text \<open>The build resolves with a result that lists an error.\<close>

definition env_errors :: env where
  "env_errors =
     env_ok\<lparr>esbuild_build := (\<lambda>opts s.
       (Inr \<lparr>errors = [''Could not resolve''], metafile_outputs = None\<rparr>, files s))\<rparr>"

text \<open>A build result with a metafile that lists two style sheets and one script.\<close>

definition result0 :: build_result where
  "result0 =
     \<lparr>errors = [],
      metafile_outputs = Some [''dist/netbox-light.css'', ''dist/netbox.js'', ''dist/netbox-dark.css'']\<rparr>"

section \<open>Running the control operators\<close>

lemma await_return [simp]: "await (return_js x) f = f x"
  by (rule ext) (simp add: await_def return_js_def)

lemma for_of_emit:
  "for_of xs (\<lambda>x s. (Inr (), s\<lparr>trace := trace s @ [ev x]\<rparr>)) s =
     (Inr (), s\<lparr>trace := trace s @ map ev xs\<rparr>)"
  by (induction xs arbitrary: s) (simp_all add: return_js_def await_def)

lemma report_bundled_emit:
  "report_bundled ext =
     (\<lambda>p s. (Inr (), s\<lparr>trace := trace s @ completion_messages ext [p]\<rparr>))"
  by (rule ext)+
    (simp add: report_bundled_def console_log_def emit_def completion_messages_def
      split: prod.splits)

lemma for_of_report:
  "for_of eps (report_bundled ext) s =
     (Inr (), s\<lparr>trace := trace s @ completion_messages ext eps\<rparr>)"
proof -
  have "completion_messages ext eps = map (\<lambda>p. hd (completion_messages ext [p])) eps"
    by (simp add: completion_messages_def)
  moreover have "\<And>p. completion_messages ext [p] = [hd (completion_messages ext [p])]"
    by (simp add: completion_messages_def)
  ultimately show ?thesis
    using for_of_emit [of eps "\<lambda>p. hd (completion_messages ext [p])" s]
    by (simp add: report_bundled_emit)
qed

lemma try_build:
  "try_catch (await (build env opts) body) console_error s =
   (case esbuild_build env opts (emit (Build opts) s) of
      (Inl err, fs) \<Rightarrow>
        (Inr (), s\<lparr>trace := trace s @ [Build opts, ConsoleError err], files := fs\<rparr>)
    | (Inr result, fs) \<Rightarrow>
        (case body result (s\<lparr>trace := trace s @ [Build opts], files := fs\<rparr>) of
           (Inl e, s') \<Rightarrow> (Inr (), emit (ConsoleError e) s')
         | (Inr u, s') \<Rightarrow> (Inr u, s')))"
  by (simp add: try_catch_def await_def build_def Let_def console_error_def emit_def
      split: prod.splits sum.splits)

lemma phase_run:
  "try_catch
     (await (build env opts) (\<lambda>result.
        if length (errors result) = 0 then for_of eps (report_bundled ext) else return_js ()))
     (\<lambda>err. console_error err) s =
   (case esbuild_build env opts (emit (Build opts) s) of
      (Inl err, fs) \<Rightarrow>
        (Inr (), s\<lparr>trace := trace s @ [Build opts, ConsoleError err], files := fs\<rparr>)
    | (Inr result, fs) \<Rightarrow>
        (Inr (), s\<lparr>trace := trace s @ Build opts #
                    (if errors result = [] then completion_messages ext eps else []),
                  files := fs\<rparr>))"
  by (simp add: try_build for_of_report return_js_def split: prod.splits sum.splits)

lemma bundleNetBox_run:
  "bundleNetBox env s =
   (case esbuild_build env netbox_build_options (emit (Build netbox_build_options) s) of
      (Inl err, fs) \<Rightarrow>
        (Inr (), s\<lparr>trace := trace s @ [Build netbox_build_options, ConsoleError err],
                  files := fs\<rparr>)
    | (Inr result, fs) \<Rightarrow>
        (Inr (), s\<lparr>trace := trace s @ Build netbox_build_options #
                    (if errors result = [] then completion_messages ''.js'' netbox_entryPoints
                     else []),
                  files := fs\<rparr>))"
  unfolding bundleNetBox_def by (rule phase_run)

lemma bundleStyles_run:
  "bundleStyles ARGS env s =
   (case esbuild_build env (styles_build_options ARGS)
           (emit (Build (styles_build_options ARGS)) s) of
      (Inl err, fs) \<Rightarrow>
        (Inr (), s\<lparr>trace := trace s @ [Build (styles_build_options ARGS), ConsoleError err],
                  files := fs\<rparr>)
    | (Inr result, fs) \<Rightarrow>
        (Inr (), s\<lparr>trace := trace s @ Build (styles_build_options ARGS) #
                    (if errors result = [] then completion_messages ''.css'' styles_entryPoints
                     else []),
                  files := fs\<rparr>))"
  unfolding bundleStyles_def by (rule phase_run)

lemma bundleGraphIQL_run:
  "bundleGraphIQL env s =
   (case esbuild_build env graphiql_build_options (emit (Build graphiql_build_options) s) of
      (Inl err, fs) \<Rightarrow>
        (Inr (), s\<lparr>trace := trace s @ [Build graphiql_build_options, ConsoleError err],
                  files := fs\<rparr>)
    | (Inr result, fs) \<Rightarrow>
        (Inr (), s\<lparr>trace := trace s @ Build graphiql_build_options #
                    (if errors result = []
                     then [ConsoleLog (bundled_message ''netbox-graphiql/index.ts'' ''graphiql.js'')]
                     else []),
                  files := fs\<rparr>))"
  unfolding bundleGraphIQL_def
  by (simp add: try_build console_log_def emit_def return_js_def split: prod.splits sum.splits)

lemma bundleScripts_run:
  "bundleScripts env s = bundleGraphIQL env (snd (bundleNetBox env s))"
  by (simp add: bundleScripts_def await_def bundleNetBox_run bundleGraphIQL_run return_js_def
      split: prod.splits sum.splits)

lemma bundleStyles_returns: "fst (bundleStyles ARGS env s) = Inr ()"
  by (simp add: bundleStyles_run split: prod.splits sum.splits)

lemma bundleNetBox_returns: "fst (bundleNetBox env s) = Inr ()"
  by (simp add: bundleNetBox_run split: prod.splits sum.splits)

lemma bundleGraphIQL_returns: "fst (bundleGraphIQL env s) = Inr ()"
  by (simp add: bundleGraphIQL_run split: prod.splits sum.splits)

lemma bundleScripts_returns: "fst (bundleScripts env s) = Inr ()"
  by (simp add: bundleScripts_run bundleGraphIQL_returns)

lemma bundleAll_both:
  "''--styles'' \<notin> set ARGS \<Longrightarrow> ''--scripts'' \<notin> set ARGS \<Longrightarrow>
   bundleAll ARGS env s = bundleScripts env (snd (bundleStyles ARGS env s))"
proof -
  assume a: "''--styles'' \<notin> set ARGS" "''--scripts'' \<notin> set ARGS"
  obtain s1 where s1: "bundleStyles ARGS env s = (Inr (), s1)"
    using bundleStyles_returns [of ARGS env s] by (cases "bundleStyles ARGS env s") simp
  obtain s2 where s2: "bundleScripts env s1 = (Inr (), s2)"
    using bundleScripts_returns [of env s1] by (cases "bundleScripts env s1") simp
  show ?thesis
    using a by (simp add: bundleAll_def await_def s1 s2 return_js_def)
qed

lemma bundleAll_returns: "fst (bundleAll ARGS env s) = Inr ()"
  by (cases "''--styles'' \<in> set ARGS"; cases "''--scripts'' \<in> set ARGS")
    (simp_all add: bundleAll_both bundleScripts_returns,
     simp_all add: bundleAll_def bundleStyles_returns bundleScripts_returns)

section \<open>The events of the phases\<close>

lemma builds_append: "builds (xs @ ys) = builds xs @ builds ys"
  by (induction xs rule: builds.induct) simp_all

lemma printed_append: "printed (xs @ ys) = printed xs @ printed ys"
  by (induction xs rule: printed.induct) simp_all

lemma builds_completion_messages: "builds (completion_messages ext eps) = []"
  by (induction eps) (simp_all add: completion_messages_def split: prod.splits)

lemma printed_completion_messages:
  "printed (completion_messages ext eps) = completion_messages ext eps"
  by (induction eps) (simp_all add: completion_messages_def split: prod.splits)

lemma events_bundleStyles:
  "events_of (bundleStyles ARGS env) s =
     Build (styles_build_options ARGS) #
     (case fst (esbuild_build env (styles_build_options ARGS)
                  (emit (Build (styles_build_options ARGS)) s)) of
        Inl err \<Rightarrow> [ConsoleError err]
      | Inr result \<Rightarrow>
          if errors result = [] then completion_messages ''.css'' styles_entryPoints else [])"
  by (simp add: events_of_def bundleStyles_run split: prod.splits sum.splits)

lemma events_bundleNetBox:
  "events_of (bundleNetBox env) s =
     Build netbox_build_options #
     (case fst (esbuild_build env netbox_build_options (emit (Build netbox_build_options) s)) of
        Inl err \<Rightarrow> [ConsoleError err]
      | Inr result \<Rightarrow>
          if errors result = [] then completion_messages ''.js'' netbox_entryPoints else [])"
  by (simp add: events_of_def bundleNetBox_run split: prod.splits sum.splits)

lemma events_bundleGraphIQL:
  "events_of (bundleGraphIQL env) s =
     Build graphiql_build_options #
     (case fst (esbuild_build env graphiql_build_options
                  (emit (Build graphiql_build_options) s)) of
        Inl err \<Rightarrow> [ConsoleError err]
      | Inr result \<Rightarrow>
          if errors result = []
          then [ConsoleLog (bundled_message ''netbox-graphiql/index.ts'' ''graphiql.js'')]
          else [])"
  by (simp add: events_of_def bundleGraphIQL_run split: prod.splits sum.splits)

lemma trace_bundleStyles:
  "trace (snd (bundleStyles ARGS env s)) = trace s @ events_of (bundleStyles ARGS env) s"
  by (simp add: events_of_def bundleStyles_run split: prod.splits sum.splits)

lemma trace_bundleNetBox:
  "trace (snd (bundleNetBox env s)) = trace s @ events_of (bundleNetBox env) s"
  by (simp add: events_of_def bundleNetBox_run split: prod.splits sum.splits)

lemma trace_bundleGraphIQL:
  "trace (snd (bundleGraphIQL env s)) = trace s @ events_of (bundleGraphIQL env) s"
  by (simp add: events_of_def bundleGraphIQL_run split: prod.splits sum.splits)

lemma events_bundleScripts:
  "events_of (bundleScripts env) s =
     events_of (bundleNetBox env) s @ events_of (bundleGraphIQL env) (snd (bundleNetBox env s))"
proof -
  have "trace (snd (bundleScripts env s)) =
          trace s @ events_of (bundleNetBox env) s
            @ events_of (bundleGraphIQL env) (snd (bundleNetBox env s))"
    by (simp add: bundleScripts_run trace_bundleGraphIQL trace_bundleNetBox)
  then show ?thesis by (simp add: events_of_def)
qed

lemma trace_bundleScripts:
  "trace (snd (bundleScripts env s)) = trace s @ events_of (bundleScripts env) s"
  by (simp add: events_bundleScripts bundleScripts_run trace_bundleGraphIQL trace_bundleNetBox)

lemma builds_bundleStyles:
  "builds (events_of (bundleStyles ARGS env) s) = [styles_build_options ARGS]"
  by (simp add: events_bundleStyles builds_completion_messages split: sum.splits)

lemma builds_bundleNetBox:
  "builds (events_of (bundleNetBox env) s) = [netbox_build_options]"
  by (simp add: events_bundleNetBox builds_completion_messages split: sum.splits)

lemma builds_bundleGraphIQL:
  "builds (events_of (bundleGraphIQL env) s) = [graphiql_build_options]"
  by (simp add: events_bundleGraphIQL split: sum.splits)

lemma builds_bundleScripts:
  "builds (events_of (bundleScripts env) s) = [netbox_build_options, graphiql_build_options]"
  by (simp add: events_bundleScripts builds_append builds_bundleNetBox builds_bundleGraphIQL)

lemma events_bundleAll_both:
  assumes "''--styles'' \<notin> set ARGS" and "''--scripts'' \<notin> set ARGS"
  shows "events_of (bundleAll ARGS env) s =
           events_of (bundleStyles ARGS env) s
             @ events_of (bundleScripts env) (snd (bundleStyles ARGS env s))"
proof -
  have "trace (snd (bundleAll ARGS env s)) =
          trace s @ events_of (bundleStyles ARGS env) s
            @ events_of (bundleScripts env) (snd (bundleStyles ARGS env s))"
    using assms by (simp add: bundleAll_both trace_bundleScripts trace_bundleStyles)
  then show ?thesis by (simp add: events_of_def)
qed

lemma builds_bundleAll:
  "builds (events_of (bundleAll ARGS env) s) =
     (if ''--styles'' \<in> set ARGS then [styles_build_options ARGS]
      else if ''--scripts'' \<in> set ARGS then [netbox_build_options, graphiql_build_options]
      else [styles_build_options ARGS, netbox_build_options, graphiql_build_options])"
proof -
  have "''--styles'' \<in> set ARGS \<Longrightarrow> bundleAll ARGS env = bundleStyles ARGS env"
    and "''--styles'' \<notin> set ARGS \<Longrightarrow> ''--scripts'' \<in> set ARGS \<Longrightarrow>
           bundleAll ARGS env = bundleScripts env"
    by (simp_all add: bundleAll_def)
  then show ?thesis
    by (auto simp add: builds_bundleStyles builds_bundleScripts events_bundleAll_both
        builds_append)
qed

lemma styles_options_not_script_options:
  "styles_build_options ARGS \<noteq> netbox_build_options"
  "styles_build_options ARGS \<noteq> graphiql_build_options"
  by (simp_all add: styles_build_options_def netbox_build_options_def
      graphiql_build_options_def options_def)

section \<open>The command line and the phases\<close>

text \<open>
  Claim C1, as amended. The phases that run are read off the calls of \<open>esbuild.build\<close>:
  with \<open>--styles\<close> on the command line, \<open>bundleAll\<close> is \<open>bundleStyles\<close> and the only build
  is the style build; with \<open>--scripts\<close> and without \<open>--styles\<close>, it is \<open>bundleScripts\<close> and
  the builds are the two script builds; with neither, the style phase runs and then the
  script phase.
\<close>

theorem bundleAll_dispatch:
  "(''--styles'' \<in> set ARGS \<longrightarrow>
      bundleAll ARGS env s = bundleStyles ARGS env s \<and>
      builds (events_of (bundleAll ARGS env) s) = [styles_build_options ARGS]) \<and>
   (''--styles'' \<notin> set ARGS \<and> ''--scripts'' \<in> set ARGS \<longrightarrow>
      bundleAll ARGS env s = bundleScripts env s \<and>
      builds (events_of (bundleAll ARGS env) s) =
        [netbox_build_options, graphiql_build_options]) \<and>
   (''--styles'' \<notin> set ARGS \<and> ''--scripts'' \<notin> set ARGS \<longrightarrow>
      bundleAll ARGS env s = bundleScripts env (snd (bundleStyles ARGS env s)) \<and>
      builds (events_of (bundleAll ARGS env) s) =
        [styles_build_options ARGS, netbox_build_options, graphiql_build_options])"
  by (simp add: builds_bundleAll bundleAll_both) (simp add: bundleAll_def)

text \<open>The three cases of C1 on concrete command lines.\<close>

theorem bundleAll_dispatch_witness:
  "bundleAll [''--styles'', ''--no-cache''] env_ok state0 =
     bundleStyles [''--styles'', ''--no-cache''] env_ok state0 \<and>
   builds (events_of (bundleAll [''--scripts''] env_ok) state0) =
     [netbox_build_options, graphiql_build_options] \<and>
   builds (events_of (bundleAll [] env_ok) state0) =
     [styles_build_options [], netbox_build_options, graphiql_build_options]"
  using bundleAll_dispatch [of "[''--styles'', ''--no-cache'']" env_ok state0]
    bundleAll_dispatch [of "[''--scripts'']" env_ok state0]
    bundleAll_dispatch [of "[]" env_ok state0]
  by simp

text \<open>
  C1 as stated fails: with \<open>--styles --scripts\<close> the argument list contains \<open>--scripts\<close>,
  and yet the run is not the script phase.
\<close>

theorem bundleAll_scripts_flag_counterexample:
  "''--scripts'' \<in> set [''--styles'', ''--scripts''] \<and>
   builds (events_of (bundleAll [''--styles'', ''--scripts''] env_ok) state0) \<noteq>
     [netbox_build_options, graphiql_build_options] \<and>
   bundleAll [''--styles'', ''--scripts''] env_ok state0 \<noteq> bundleScripts env_ok state0"
proof -
  have "trace (snd (bundleAll [''--styles'', ''--scripts''] env_ok state0)) =
          events_of (bundleAll [''--styles'', ''--scripts''] env_ok) state0"
    by (simp add: events_of_def state0_def)
  moreover have "trace (snd (bundleScripts env_ok state0)) =
          events_of (bundleScripts env_ok) state0"
    by (simp add: events_of_def state0_def)
  ultimately have "bundleAll [''--styles'', ''--scripts''] env_ok state0 = bundleScripts env_ok state0
      \<Longrightarrow> builds (events_of (bundleAll [''--styles'', ''--scripts''] env_ok) state0)
          = builds (events_of (bundleScripts env_ok) state0)"
    by simp
  then show ?thesis
    by (auto simp add: builds_bundleAll builds_bundleScripts)
qed

text \<open>
  Claim C8. When the argument list contains both \<open>--styles\<close> and \<open>--scripts\<close>, \<open>bundleAll\<close>
  is the style phase alone: neither script build is requested.
\<close>

theorem bundleAll_styles_precedence:
  assumes "''--styles'' \<in> set ARGS" and "''--scripts'' \<in> set ARGS"
  shows "bundleAll ARGS env s = bundleStyles ARGS env s \<and>
         builds (events_of (bundleAll ARGS env) s) = [styles_build_options ARGS] \<and>
         netbox_build_options \<notin> set (builds (events_of (bundleAll ARGS env) s)) \<and>
         graphiql_build_options \<notin> set (builds (events_of (bundleAll ARGS env) s))"
proof -
  have "bundleAll ARGS env s = bundleStyles ARGS env s"
    using assms by (simp add: bundleAll_def)
  moreover have "builds (events_of (bundleAll ARGS env) s) = [styles_build_options ARGS]"
    using assms by (simp add: builds_bundleAll)
  ultimately show ?thesis
    using styles_options_not_script_options [of ARGS] by auto
qed

text \<open>C8 on the command line \<open>--scripts --styles\<close>.\<close>

theorem bundleAll_styles_precedence_witness:
  "''--styles'' \<in> set [''--scripts'', ''--styles''] \<and>
   ''--scripts'' \<in> set [''--scripts'', ''--styles''] \<and>
   bundleAll [''--scripts'', ''--styles''] env_ok state0 =
     bundleStyles [''--scripts'', ''--styles''] env_ok state0 \<and>
   netbox_build_options \<notin>
     set (builds (events_of (bundleAll [''--scripts'', ''--styles''] env_ok) state0))"
proof -
  have a: "''--styles'' \<in> set [''--scripts'', ''--styles'']"
    and b: "''--scripts'' \<in> set [''--scripts'', ''--styles'']"
    by simp_all
  from bundleAll_styles_precedence [OF a b, of env_ok state0] a b
  show ?thesis by blast
qed

text \<open>
  Claim C2. Every phase returns normally whatever the build does, and so do
  \<open>bundleScripts\<close> and \<open>bundleAll\<close>; the process ends with code 0. When the build of a
  phase throws \<open>err\<close>, the phase does two things: it calls the build and prints \<open>err\<close>
  with \<open>console.error\<close>.
\<close>

theorem bundle_phase_catches_build_error:
  "fst (bundleStyles ARGS env s) = Inr () \<and>
   fst (bundleNetBox env s) = Inr () \<and>
   fst (bundleGraphIQL env s) = Inr () \<and>
   fst (bundleScripts env s) = Inr () \<and>
   fst (bundleAll ARGS env s) = Inr () \<and>
   fst (main ARGS env s) = 0 \<and>
   (fst (esbuild_build env (styles_build_options ARGS)
           (emit (Build (styles_build_options ARGS)) s)) = Inl err \<longrightarrow>
      events_of (bundleStyles ARGS env) s =
        [Build (styles_build_options ARGS), ConsoleError err]) \<and>
   (fst (esbuild_build env netbox_build_options (emit (Build netbox_build_options) s)) = Inl err
      \<longrightarrow> events_of (bundleNetBox env) s = [Build netbox_build_options, ConsoleError err]) \<and>
   (fst (esbuild_build env graphiql_build_options (emit (Build graphiql_build_options) s))
      = Inl err
      \<longrightarrow> events_of (bundleGraphIQL env) s = [Build graphiql_build_options, ConsoleError err])"
proof -
  have "fst (main ARGS env s) = 0"
    using bundleAll_returns [of ARGS env s]
    by (cases "bundleAll ARGS env s") (auto simp add: main_def)
  then show ?thesis
    by (simp add: bundleStyles_returns bundleNetBox_returns bundleGraphIQL_returns
        bundleScripts_returns bundleAll_returns events_bundleStyles events_bundleNetBox
        events_bundleGraphIQL)
qed

lemma env_throw_build [simp]:
  "esbuild_build env_throw opts s = (Inl (Error ''Build failed''), files s)"
  by (simp add: env_throw_def)

text \<open>C2 where every build rejects.\<close>

theorem bundle_phase_catches_build_error_witness:
  "fst (esbuild_build env_throw (styles_build_options [])
          (emit (Build (styles_build_options [])) state0)) = Inl (Error ''Build failed'') \<and>
   fst (bundleStyles [] env_throw state0) = Inr () \<and>
   events_of (bundleStyles [] env_throw) state0 =
     [Build (styles_build_options []), ConsoleError (Error ''Build failed'')] \<and>
   events_of (bundleNetBox env_throw) state0 =
     [Build netbox_build_options, ConsoleError (Error ''Build failed'')] \<and>
   events_of (bundleGraphIQL env_throw) state0 =
     [Build graphiql_build_options, ConsoleError (Error ''Build failed'')] \<and>
   fst (main [] env_throw state0) = 0"
  using bundle_phase_catches_build_error [of "[]" env_throw state0 "Error ''Build failed''"]
  by simp

text \<open>
  Claim C3. With neither flag, \<open>bundleAll\<close> runs the script phase from the state the style
  phase ended in, and its events are all the events of the style phase followed by all
  the events of the script phase.
\<close>

theorem bundleAll_styles_then_scripts:
  assumes "''--styles'' \<notin> set ARGS" and "''--scripts'' \<notin> set ARGS"
  shows "bundleAll ARGS env s = bundleScripts env (snd (bundleStyles ARGS env s)) \<and>
         events_of (bundleAll ARGS env) s =
           events_of (bundleStyles ARGS env) s
             @ events_of (bundleScripts env) (snd (bundleStyles ARGS env s)) \<and>
         builds (events_of (bundleStyles ARGS env) s) = [styles_build_options ARGS] \<and>
         builds (events_of (bundleScripts env) (snd (bundleStyles ARGS env s))) =
           [netbox_build_options, graphiql_build_options]"
  using assms
  by (simp add: bundleAll_both events_bundleAll_both builds_bundleStyles builds_bundleScripts)

lemma env_ok_build [simp]:
  "esbuild_build env_ok opts s =
     (Inr \<lparr>errors = [], metafile_outputs = Some [''dist/netbox-light.css'', ''dist/netbox.js'']\<rparr>,
      files s)"
  by (simp add: env_ok_def)

text \<open>C3 on the command line \<open>--no-cache\<close>, every build succeeding.\<close>

theorem bundleAll_styles_then_scripts_witness:
  "''--styles'' \<notin> set [''--no-cache''] \<and> ''--scripts'' \<notin> set [''--no-cache''] \<and>
   events_of (bundleAll [''--no-cache''] env_ok) state0 =
     (Build (styles_build_options [''--no-cache'']) #
        completion_messages ''.css'' styles_entryPoints)
     @ (Build netbox_build_options # completion_messages ''.js'' netbox_entryPoints)
     @ [Build graphiql_build_options,
        ConsoleLog (bundled_message ''netbox-graphiql/index.ts'' ''graphiql.js'')]"
  using bundleAll_styles_then_scripts [of "[''--no-cache'']" env_ok state0]
  by (simp add: events_bundleStyles events_bundleScripts events_bundleNetBox
      events_bundleGraphIQL)

text \<open>
  Claim C6. The options of the Sass plugin have \<open>cache\<close> set to \<open>false\<close> exactly when the
  argument list contains \<open>--no-cache\<close>, and not set otherwise. Nothing else in the style
  build depends on the command line, and the two script builds have fixed options.
\<close>

theorem no_cache_flag_sets_sass_cache:
  "pluginOptions ARGS =
     \<lparr>outputStyle = ''compressed'',
      cache = (if ''--no-cache'' \<in> set ARGS then Some False else None)\<rparr> \<and>
   styles_build_options ARGS =
     (styles_build_options [])
       \<lparr>plugins := [SassPlugin (pluginOptions ARGS), PurgecssPlugin styles_purgecss_options]\<rparr> \<and>
   builds (events_of (bundleAll ARGS env) s) =
     (if ''--styles'' \<in> set ARGS then [styles_build_options ARGS]
      else if ''--scripts'' \<in> set ARGS then [netbox_build_options, graphiql_build_options]
      else [styles_build_options ARGS, netbox_build_options, graphiql_build_options])"
  by (simp add: builds_bundleAll) (simp add: pluginOptions_def styles_build_options_def)

text \<open>
  Claim C7 asks each completion message to name the source file. For the entry points
  under \<open>src/device/\<close> the message names the directory: \<open>split('/')[1]\<close> is the second
  component of the path, not the last.
\<close>

theorem bundleNetBox_reports_directory:
  "printed (events_of (bundleNetBox env_ok) state0) =
     [ConsoleLog (bundled_message ''index.ts'' ''netbox.js''),
      ConsoleLog (bundled_message ''device'' ''lldp.js''),
      ConsoleLog (bundled_message ''device'' ''config.js''),
      ConsoleLog (bundled_message ''device'' ''status.js'')]"
  by (simp add: events_bundleNetBox completion_messages_def netbox_entryPoints_def template_def)

text \<open>
  Claim C9. \<open>setup\<close> throws, with the message of the source, exactly when the initial
  options do not have \<open>metafile\<close> set to \<open>true\<close>. The one build \<open>bundleStyles\<close> requests has
  \<open>metafile: true\<close>, and \<open>setup\<close> on its options registers the callback.
\<close>

theorem purgecss_setup_metafile_guard:
  "((\<exists>e. purgecss_setup popts initialOptions = Inl e) = (metafile initialOptions \<noteq> Some True)) \<and>
   ((purgecss_setup popts initialOptions =
       Inl (Error ''`metafile` must be set to true in esbuild configuration''))
      = (metafile initialOptions \<noteq> Some True)) \<and>
   builds (events_of (bundleStyles ARGS env) s) = [styles_build_options ARGS] \<and>
   metafile (styles_build_options ARGS) = Some True \<and>
   purgecss_setup styles_purgecss_options (styles_build_options ARGS) =
     Inr [purgecss_onEnd styles_purgecss_options]"
  by (simp add: builds_bundleStyles) (simp add: purgecss_setup_def styles_build_options_def)

text \<open>
  Claim C10. When the build of a phase resolves with a result whose \<open>errors\<close> is not empty,
  the build call is the only event of the phase: it prints nothing.
\<close>

theorem build_errors_phase_prints_nothing:
  "(fst (esbuild_build env (styles_build_options ARGS)
           (emit (Build (styles_build_options ARGS)) s)) = Inr result \<and> errors result \<noteq> []
      \<longrightarrow> events_of (bundleStyles ARGS env) s = [Build (styles_build_options ARGS)] \<and>
          printed (events_of (bundleStyles ARGS env) s) = []) \<and>
   (fst (esbuild_build env netbox_build_options (emit (Build netbox_build_options) s))
      = Inr result \<and> errors result \<noteq> []
      \<longrightarrow> events_of (bundleNetBox env) s = [Build netbox_build_options] \<and>
          printed (events_of (bundleNetBox env) s) = []) \<and>
   (fst (esbuild_build env graphiql_build_options (emit (Build graphiql_build_options) s))
      = Inr result \<and> errors result \<noteq> []
      \<longrightarrow> events_of (bundleGraphIQL env) s = [Build graphiql_build_options] \<and>
          printed (events_of (bundleGraphIQL env) s) = [])"
  by (simp add: events_bundleStyles events_bundleNetBox events_bundleGraphIQL)

lemma env_errors_build [simp]:
  "esbuild_build env_errors opts s =
     (Inr \<lparr>errors = [''Could not resolve''], metafile_outputs = None\<rparr>, files s)"
  by (simp add: env_errors_def env_ok_def)

text \<open>C10 where every build resolves with one error.\<close>

theorem build_errors_phase_prints_nothing_witness:
  "errors \<lparr>errors = [''Could not resolve''], metafile_outputs = None\<rparr> \<noteq> [] \<and>
   printed (events_of (bundleStyles [] env_errors) state0) = [] \<and>
   printed (events_of (bundleNetBox env_errors) state0) = [] \<and>
   printed (events_of (bundleGraphIQL env_errors) state0) = [] \<and>
   events_of (bundleNetBox env_errors) state0 = [Build netbox_build_options]"
  using build_errors_phase_prints_nothing
    [of env_errors "[]" state0 "\<lparr>errors = [''Could not resolve''], metafile_outputs = None\<rparr>"]
  by simp

section \<open>The PurgeCSS plugin\<close>

lemma endsWith_suffix: "endsWith k suf = suffix suf k"
proof
  assume "endsWith k suf"
  then have "k = take (length k - length suf) k @ suf"
    by (metis append_take_drop_id endsWith_def)
  then show "suffix suf k" by (rule suffixI)
next
  assume "suffix suf k"
  then obtain zs where "k = zs @ suf" by (auto simp add: suffix_def)
  then show "endsWith k suf" by (simp add: endsWith_def)
qed

lemma for_of_Cons_run:
  "for_of (p # ps) body s =
     (case body p s of (Inl e, s') \<Rightarrow> (Inl e, s') | (Inr u, s') \<Rightarrow> for_of ps body s')"
  by (simp add: await_def)

lemma writeFile_pair_run:
  "(\<lambda>(file, data). writeFile env file data) (path, data) s =
     (case writeFile_error env path data (emit (WriteFile path data) s) of
        Some e \<Rightarrow> (Inl e, emit (WriteFile path data) s)
      | None \<Rightarrow>
          (Inr (), s\<lparr>trace := trace s @ [WriteFile path data],
                      files := (files s)(path \<mapsto> data)\<rparr>))"
  by (simp add: writeFile_def Let_def emit_def split: option.splits)

lemma for_of_writeFile:
  "for_of res (\<lambda>(file, data). writeFile env file data) s = (r, s') \<Longrightarrow>
   \<exists>n\<le>length res.
     trace s' = trace s @ map (\<lambda>(file, data). WriteFile file data) (take n res) \<and>
     (r = Inr () \<longrightarrow>
        n = length res \<and>
        files s' = fold (\<lambda>(file, data) fs. fs(file \<mapsto> data)) res (files s))"
proof (induction res arbitrary: s)
  case Nil
  then show ?case by (simp add: return_js_def)
next
  case (Cons p res)
  obtain path data where p: "p = (path, data)" by (cases p)
  let ?s1 = "emit (WriteFile path data) s"
  show ?case
  proof (cases "writeFile_error env path data ?s1")
    case (Some e)
    from Cons.prems have "(r, s') = (Inl e, ?s1)"
      unfolding p for_of_Cons_run writeFile_pair_run Some by simp
    then show ?thesis
      by (intro exI [of _ 1]) (simp add: p emit_def)
  next
    case None
    let ?s2 = "s\<lparr>trace := trace s @ [WriteFile path data], files := (files s)(path \<mapsto> data)\<rparr>"
    from Cons.prems
    have "for_of res (\<lambda>(file, data). writeFile env file data) ?s2 = (r, s')"
      unfolding p for_of_Cons_run writeFile_pair_run None by simp
    from Cons.IH [OF this] obtain n where n: "n \<le> length res"
      "trace s' = trace ?s2 @ map (\<lambda>(file, data). WriteFile file data) (take n res)"
      "r = Inr () \<longrightarrow> n = length res \<and>
         files s' = fold (\<lambda>(file, data) fs. fs(file \<mapsto> data)) res (files ?s2)"
      by blast
    then show ?thesis
      by (intro exI [of _ "Suc n"]) (simp add: p del: fun_upd_apply)
  qed
qed

lemma fold_writes_map_of:
  "fold (\<lambda>(file, data) fs. fs(file \<mapsto> data)) res m = m ++ map_of (rev res)"
  by (induction res arbitrary: m) (auto split: prod.splits)

lemma fold_writes_other:
  assumes "path \<notin> fst ` set res"
  shows "fold (\<lambda>(file, data) fs. fs(file \<mapsto> data)) res m path = m path"
proof -
  from assms have "map_of (rev res) path = None"
    by (simp add: map_of_eq_None_iff)
  then show ?thesis
    unfolding fold_writes_map_of by (simp add: map_add_def)
qed

lemma fold_writes_named:
  assumes "path \<in> fst ` set res"
  shows "\<exists>data. (path, data) \<in> set res \<and>
           fold (\<lambda>(file, data) fs. fs(file \<mapsto> data)) res m path = Some data"
proof -
  from assms have "map_of (rev res) path \<noteq> None"
    by (simp add: map_of_eq_None_iff)
  then obtain data where d: "map_of (rev res) path = Some data" by blast
  then have "(path, data) \<in> set (rev res)" by (rule map_of_SomeD)
  moreover have "(m ++ map_of (rev res)) path = Some data"
    using d by (simp add: map_add_def)
  ultimately show ?thesis
    unfolding fold_writes_map_of by auto
qed

lemma fold_writes_distinct:
  assumes "distinct (map fst res)" and "(path, data) \<in> set res"
  shows "fold (\<lambda>(file, data) fs. fs(file \<mapsto> data)) res m path = Some data"
proof -
  have "distinct (map fst (rev res))"
    using assms(1) by (simp add: rev_map [symmetric])
  then have "map_of (rev res) path = Some data"
    using assms(2) by simp
  then show ?thesis
    unfolding fold_writes_map_of by (simp add: map_add_def)
qed

lemma writes_append: "writes (xs @ ys) = writes xs @ writes ys"
  by (induction xs rule: writes.induct) simp_all

lemma purges_append: "purges (xs @ ys) = purges xs @ purges ys"
  by (induction xs rule: purges.induct) simp_all

lemma globs_append: "globs (xs @ ys) = globs xs @ globs ys"
  by (induction xs rule: globs.induct) simp_all

lemma observe_WriteFile_events:
  "writes (map (\<lambda>(file, data). WriteFile file data) ws) = ws"
  "purges (map (\<lambda>(file, data). WriteFile file data) ws) = []"
  "globs (map (\<lambda>(file, data). WriteFile file data) ws) = []"
  by (induction ws) (auto split: prod.splits)

lemma purgecss_onEnd_run:
  assumes "metafile_outputs args = Some outputKeys"
  shows "purgecss_onEnd popts env args s =
     (case fast_glob env content_patterns content_glob_options
             (emit (Glob content_patterns content_glob_options) s) of
        Inl e \<Rightarrow> (Inl e, emit (Glob content_patterns content_glob_options) s)
      | Inr found \<Rightarrow>
          (case purgecss_purge env
                  \<lparr>purge_options = popts, content = found,
                   css = filter (\<lambda>k. endsWith k ''.css'') outputKeys\<rparr>
                  (emit (Purge \<lparr>purge_options = popts, content = found,
                                css = filter (\<lambda>k. endsWith k ''.css'') outputKeys\<rparr>)
                     (emit (Glob content_patterns content_glob_options) s)) of
             Inl e \<Rightarrow>
               (Inl e,
                emit (Purge \<lparr>purge_options = popts, content = found,
                             css = filter (\<lambda>k. endsWith k ''.css'') outputKeys\<rparr>)
                  (emit (Glob content_patterns content_glob_options) s))
           | Inr res \<Rightarrow>
               for_of res (\<lambda>(file, data). writeFile env file data)
                 (emit (Purge \<lparr>purge_options = popts, content = found,
                              css = filter (\<lambda>k. endsWith k ''.css'') outputKeys\<rparr>)
                    (emit (Glob content_patterns content_glob_options) s))))"
  unfolding purgecss_onEnd_def assms
  by (simp add: await_def glob_def purge_def Let_def split: sum.splits)

lemma purgecss_onEnd_no_metafile:
  "metafile_outputs args = None \<Longrightarrow> fst (purgecss_onEnd popts env args s) \<noteq> Inr ()"
  by (simp add: purgecss_onEnd_def throw_def)

lemma purgecss_onEnd_events:
  assumes "metafile_outputs args = Some outputKeys"
    and "fast_glob env content_patterns content_glob_options
           (emit (Glob content_patterns content_glob_options) s) = Inr found"
  shows "\<exists>ws. events_of (purgecss_onEnd popts env args) s =
           Glob content_patterns content_glob_options #
           Purge \<lparr>purge_options = popts, content = found,
                  css = filter (suffix ''.css'') outputKeys\<rparr> #
           map (\<lambda>(file, data). WriteFile file data) ws"
proof -
  let ?pa = "\<lparr>purge_options = popts, content = found,
              css = filter (\<lambda>k. endsWith k ''.css'') outputKeys\<rparr>"
  let ?s2 = "emit (Purge ?pa) (emit (Glob content_patterns content_glob_options) s)"
  have css: "filter (\<lambda>k. endsWith k ''.css'') outputKeys = filter (suffix ''.css'') outputKeys"
    by (simp add: endsWith_suffix)
  have "\<exists>ws. trace (snd (purgecss_onEnd popts env args s)) =
          trace s @ Glob content_patterns content_glob_options # Purge ?pa #
            map (\<lambda>(file, data). WriteFile file data) ws"
  proof (cases "purgecss_purge env ?pa ?s2")
    case (Inl e)
    then have "purgecss_onEnd popts env args s = (Inl e, ?s2)"
      by (simp add: purgecss_onEnd_run [OF assms(1)] assms(2))
    then show ?thesis
      by (intro exI [of _ "[]"]) (simp add: emit_def)
  next
    case (Inr res)
    obtain r s' where run: "for_of res (\<lambda>(file, data). writeFile env file data) ?s2 = (r, s')"
      by (cases "for_of res (\<lambda>(file, data). writeFile env file data) ?s2")
    from for_of_writeFile [OF run] obtain n where
      "trace s' = trace ?s2 @ map (\<lambda>(file, data). WriteFile file data) (take n res)"
      by blast
    moreover have "purgecss_onEnd popts env args s = (r, s')"
      by (simp add: purgecss_onEnd_run [OF assms(1)] assms(2) Inr run)
    ultimately show ?thesis
      by (intro exI [of _ "take n res"]) (simp add: emit_def)
  qed
  then show ?thesis
    by (auto simp add: events_of_def css)
qed

text \<open>
  Claim C4, as amended. When the build result has a metafile and \<open>glob\<close> resolves, the
  callback calls \<open>glob\<close> once, with the fixed patterns and options, and \<open>purgeCSS.purge\<close>
  once: its \<open>css\<close> list is exactly the output keys that end with \<open>.css\<close>, its \<open>content\<close> is
  the list of paths that \<open>glob\<close> returned for the fixed patterns, and its other options
  are those of the plugin.
\<close>

theorem purgecss_onEnd_forwards:
  assumes "metafile_outputs args = Some outputKeys"
    and "fast_glob env content_patterns content_glob_options
           (emit (Glob content_patterns content_glob_options) s) = Inr found"
  shows "globs (events_of (purgecss_onEnd popts env args) s) =
           [(content_patterns, content_glob_options)] \<and>
         purges (events_of (purgecss_onEnd popts env args) s) =
           [\<lparr>purge_options = popts, content = found,
             css = filter (suffix ''.css'') outputKeys\<rparr>]"
  using purgecss_onEnd_events [OF assms, of popts]
  by (auto simp add: observe_WriteFile_events)

lemma env_ok_glob [simp]:
  "fast_glob env_ok patterns gopts s = Inr [''/opt/netbox/netbox/templates/base.html'']"
  by (simp add: env_ok_def)

lemma env_ok_purge [simp]:
  "purgecss_purge env_ok args s = Inr (map (\<lambda>f. (f, ''.navbar{margin:0}'')) (css args))"
  by (simp add: env_ok_def)

lemma env_ok_writeFile [simp]: "writeFile_error env_ok path data s = None"
  by (simp add: env_ok_def)

lemma css_outputs_result0:
  "filter (suffix ''.css'') [''dist/netbox-light.css'', ''dist/netbox.js'', ''dist/netbox-dark.css'']
     = [''dist/netbox-light.css'', ''dist/netbox-dark.css'']"
  by (simp add: endsWith_suffix [symmetric] endsWith_def)

text \<open>C4 as amended, where every tool succeeds.\<close>

theorem purgecss_onEnd_forwards_witness:
  "metafile_outputs result0 =
     Some [''dist/netbox-light.css'', ''dist/netbox.js'', ''dist/netbox-dark.css''] \<and>
   fast_glob env_ok content_patterns content_glob_options
     (emit (Glob content_patterns content_glob_options) state0) =
     Inr [''/opt/netbox/netbox/templates/base.html''] \<and>
   globs (events_of (purgecss_onEnd styles_purgecss_options env_ok result0) state0) =
     [(content_patterns, content_glob_options)] \<and>
   purges (events_of (purgecss_onEnd styles_purgecss_options env_ok result0) state0) =
     [\<lparr>purge_options = styles_purgecss_options,
       content = [''/opt/netbox/netbox/templates/base.html''],
       css = [''dist/netbox-light.css'', ''dist/netbox-dark.css'']\<rparr>]"
proof -
  have a: "metafile_outputs result0 =
     Some [''dist/netbox-light.css'', ''dist/netbox.js'', ''dist/netbox-dark.css'']"
    by (simp add: result0_def)
  have b: "fast_glob env_ok content_patterns content_glob_options
     (emit (Glob content_patterns content_glob_options) state0) =
     Inr [''/opt/netbox/netbox/templates/base.html'']"
    by simp
  from purgecss_onEnd_forwards [OF a b, of styles_purgecss_options] a b
  show ?thesis by (simp only: css_outputs_result0 simp_thms)
qed

text \<open>
  C4 as stated fails: the \<open>content\<close> that PurgeCSS receives is what \<open>glob\<close> found, not the
  list of patterns.
\<close>

theorem purgecss_onEnd_content_counterexample:
  "map content (purges (events_of (purgecss_onEnd styles_purgecss_options env_ok result0) state0))
     = [[''/opt/netbox/netbox/templates/base.html'']] \<and>
   map content (purges (events_of (purgecss_onEnd styles_purgecss_options env_ok result0) state0))
     \<noteq> [content_patterns]"
proof -
  have a: "metafile_outputs result0 =
     Some [''dist/netbox-light.css'', ''dist/netbox.js'', ''dist/netbox-dark.css'']"
    by (simp add: result0_def)
  have b: "fast_glob env_ok content_patterns content_glob_options
     (emit (Glob content_patterns content_glob_options) state0) =
     Inr [''/opt/netbox/netbox/templates/base.html'']"
    by simp
  have "purges (events_of (purgecss_onEnd styles_purgecss_options env_ok result0) state0) =
     [\<lparr>purge_options = styles_purgecss_options,
       content = [''/opt/netbox/netbox/templates/base.html''],
       css = filter (suffix ''.css'')
               [''dist/netbox-light.css'', ''dist/netbox.js'', ''dist/netbox-dark.css'']\<rparr>]"
    using purgecss_onEnd_events [OF a b, of styles_purgecss_options]
    by (auto simp add: observe_WriteFile_events)
  then show ?thesis by (simp add: content_patterns_def)
qed


lemma purgecss_onEnd_completes:
  assumes "purgecss_onEnd popts env args s = (Inr (), s')"
  shows "\<exists>outputKeys found res.
           metafile_outputs args = Some outputKeys \<and>
           fast_glob env content_patterns content_glob_options
             (emit (Glob content_patterns content_glob_options) s) = Inr found \<and>
           purgecss_purge env
             \<lparr>purge_options = popts, content = found,
              css = filter (\<lambda>k. endsWith k ''.css'') outputKeys\<rparr>
             (emit (Purge \<lparr>purge_options = popts, content = found,
                           css = filter (\<lambda>k. endsWith k ''.css'') outputKeys\<rparr>)
                (emit (Glob content_patterns content_glob_options) s)) = Inr res \<and>
           trace s' =
             trace s @ Glob content_patterns content_glob_options #
               Purge \<lparr>purge_options = popts, content = found,
                      css = filter (\<lambda>k. endsWith k ''.css'') outputKeys\<rparr> #
               map (\<lambda>(file, data). WriteFile file data) res \<and>
           files s' = fold (\<lambda>(file, data) fs. fs(file \<mapsto> data)) res (files s)"
proof -
  from assms obtain outputKeys where keys: "metafile_outputs args = Some outputKeys"
    using purgecss_onEnd_no_metafile [of args popts env s]
    by (cases "metafile_outputs args") auto
  let ?s1 = "emit (Glob content_patterns content_glob_options) s"
  from assms obtain found where
    found: "fast_glob env content_patterns content_glob_options ?s1 = Inr found"
    by (cases "fast_glob env content_patterns content_glob_options ?s1")
      (simp_all add: purgecss_onEnd_run [OF keys])
  let ?pa = "\<lparr>purge_options = popts, content = found,
              css = filter (\<lambda>k. endsWith k ''.css'') outputKeys\<rparr>"
  let ?s2 = "emit (Purge ?pa) ?s1"
  from assms obtain res where res: "purgecss_purge env ?pa ?s2 = Inr res"
    by (cases "purgecss_purge env ?pa ?s2") (simp_all add: purgecss_onEnd_run [OF keys] found)
  from assms have "for_of res (\<lambda>(file, data). writeFile env file data) ?s2 = (Inr (), s')"
    by (simp add: purgecss_onEnd_run [OF keys] found res)
  from for_of_writeFile [OF this]
  have "trace s' = trace ?s2 @ map (\<lambda>(file, data). WriteFile file data) res"
    and "files s' = fold (\<lambda>(file, data) fs. fs(file \<mapsto> data)) res (files ?s2)"
    by auto
  then have "trace s' = trace s @ Glob content_patterns content_glob_options # Purge ?pa #
               map (\<lambda>(file, data). WriteFile file data) res"
    and "files s' = fold (\<lambda>(file, data) fs. fs(file \<mapsto> data)) res (files s)"
    by (simp_all add: emit_def)
  with keys found res show ?thesis by blast
qed

text \<open>
  Claim C5. When the callback completes, the purge call returned a list \<open>res\<close>; the
  callback wrote exactly the entries of \<open>res\<close>, in order, and nothing else; every file
  named in \<open>res\<close> holds a content returned for it (the one returned for it, when no file
  is named twice); every other file is unchanged.
\<close>

theorem purgecss_onEnd_overwrites:
  assumes "purgecss_onEnd popts env args s = (Inr (), s')"
  shows "\<exists>outputKeys found res.
           metafile_outputs args = Some outputKeys \<and>
           fast_glob env content_patterns content_glob_options
             (emit (Glob content_patterns content_glob_options) s) = Inr found \<and>
           purgecss_purge env
             \<lparr>purge_options = popts, content = found,
              css = filter (\<lambda>k. endsWith k ''.css'') outputKeys\<rparr>
             (emit (Purge \<lparr>purge_options = popts, content = found,
                           css = filter (\<lambda>k. endsWith k ''.css'') outputKeys\<rparr>)
                (emit (Glob content_patterns content_glob_options) s)) = Inr res \<and>
           writes (events_of (purgecss_onEnd popts env args) s) = res \<and>
           (\<forall>path \<in> fst ` set res. \<exists>data. (path, data) \<in> set res \<and> files s' path = Some data) \<and>
           (distinct (map fst res) \<longrightarrow>
              (\<forall>(path, data) \<in> set res. files s' path = Some data)) \<and>
           (\<forall>path. path \<notin> fst ` set res \<longrightarrow> files s' path = files s path)"
proof -
  from purgecss_onEnd_completes [OF assms] obtain outputKeys found res where
    keys: "metafile_outputs args = Some outputKeys"
    and found: "fast_glob env content_patterns content_glob_options
             (emit (Glob content_patterns content_glob_options) s) = Inr found"
    and res: "purgecss_purge env
             \<lparr>purge_options = popts, content = found,
              css = filter (\<lambda>k. endsWith k ''.css'') outputKeys\<rparr>
             (emit (Purge \<lparr>purge_options = popts, content = found,
                           css = filter (\<lambda>k. endsWith k ''.css'') outputKeys\<rparr>)
                (emit (Glob content_patterns content_glob_options) s)) = Inr res"
    and tr: "trace s' =
             trace s @ Glob content_patterns content_glob_options #
               Purge \<lparr>purge_options = popts, content = found,
                      css = filter (\<lambda>k. endsWith k ''.css'') outputKeys\<rparr> #
               map (\<lambda>(file, data). WriteFile file data) res"
    and fs: "files s' = fold (\<lambda>(file, data) fs. fs(file \<mapsto> data)) res (files s)"
    by blast
  have w: "writes (events_of (purgecss_onEnd popts env args) s) = res"
    using tr by (simp add: events_of_def assms observe_WriteFile_events)
  have named: "\<forall>path \<in> fst ` set res. \<exists>data. (path, data) \<in> set res \<and> files s' path = Some data"
  proof
    fix path
    assume "path \<in> fst ` set res"
    from fold_writes_named [OF this, of "files s"]
    show "\<exists>data. (path, data) \<in> set res \<and> files s' path = Some data"
      unfolding fs .
  qed
  have dist: "distinct (map fst res) \<longrightarrow>
              (\<forall>(path, data) \<in> set res. files s' path = Some data)"
  proof (intro impI ballI)
    fix p
    assume d: "distinct (map fst res)" and "p \<in> set res"
    then have "(fst p, snd p) \<in> set res" by simp
    from fold_writes_distinct [OF d this, of "files s"]
    show "case p of (path, data) \<Rightarrow> files s' path = Some data"
      unfolding fs by (simp add: case_prod_beta)
  qed
  have other: "\<forall>path. path \<notin> fst ` set res \<longrightarrow> files s' path = files s path"
  proof (intro allI impI)
    fix path
    assume "path \<notin> fst ` set res"
    from fold_writes_other [OF this, of "files s"]
    show "files s' path = files s path"
      unfolding fs .
  qed
  show ?thesis
    by (intro exI [of _ outputKeys] exI [of _ found] exI [of _ res] conjI)
      (rule keys found res w named dist other)+
qed

lemma css_keys_result0:
  "filter (\<lambda>k. endsWith k ''.css'')
     [''dist/netbox-light.css'', ''dist/netbox.js'', ''dist/netbox-dark.css'']
     = [''dist/netbox-light.css'', ''dist/netbox-dark.css'']"
  by (simp add: endsWith_def)

lemma purgecss_onEnd_env_ok:
  "fst (purgecss_onEnd styles_purgecss_options env_ok result0 state0) = Inr ()"
proof -
  have keys: "metafile_outputs result0 =
     Some [''dist/netbox-light.css'', ''dist/netbox.js'', ''dist/netbox-dark.css'']"
    by (simp add: result0_def)
  show ?thesis
    unfolding purgecss_onEnd_run [OF keys] css_keys_result0
    by (simp add: await_def writeFile_def Let_def return_js_def)
qed

text \<open>C5 where every tool succeeds: two style sheets are rewritten, the script is not.\<close>

theorem purgecss_onEnd_overwrites_witness:
  "fst (purgecss_onEnd styles_purgecss_options env_ok result0 state0) = Inr () \<and>
   writes (events_of (purgecss_onEnd styles_purgecss_options env_ok result0) state0) =
     [(''dist/netbox-light.css'', ''.navbar{margin:0}''),
      (''dist/netbox-dark.css'', ''.navbar{margin:0}'')] \<and>
   files (snd (purgecss_onEnd styles_purgecss_options env_ok result0 state0))
     ''dist/netbox-light.css'' = Some ''.navbar{margin:0}'' \<and>
   files (snd (purgecss_onEnd styles_purgecss_options env_ok result0 state0))
     ''dist/netbox-dark.css'' = Some ''.navbar{margin:0}'' \<and>
   files (snd (purgecss_onEnd styles_purgecss_options env_ok result0 state0))
     ''dist/netbox.js'' = files state0 ''dist/netbox.js''"
proof -
  let ?s' = "snd (purgecss_onEnd styles_purgecss_options env_ok result0 state0)"
  have run: "purgecss_onEnd styles_purgecss_options env_ok result0 state0 = (Inr (), ?s')"
    using purgecss_onEnd_env_ok
    by (cases "purgecss_onEnd styles_purgecss_options env_ok result0 state0") simp
  from purgecss_onEnd_overwrites [OF run] obtain outputKeys found res where
    keys: "metafile_outputs result0 = Some outputKeys"
    and res: "purgecss_purge env_ok
             \<lparr>purge_options = styles_purgecss_options, content = found,
              css = filter (\<lambda>k. endsWith k ''.css'') outputKeys\<rparr>
             (emit (Purge \<lparr>purge_options = styles_purgecss_options, content = found,
                           css = filter (\<lambda>k. endsWith k ''.css'') outputKeys\<rparr>)
                (emit (Glob content_patterns content_glob_options) state0)) = Inr res"
    and w: "writes (events_of (purgecss_onEnd styles_purgecss_options env_ok result0) state0) = res"
    and dist: "distinct (map fst res) \<longrightarrow> (\<forall>(path, data) \<in> set res. files ?s' path = Some data)"
    and other: "\<forall>path. path \<notin> fst ` set res \<longrightarrow> files ?s' path = files state0 path"
    by blast
  from keys have "outputKeys = [''dist/netbox-light.css'', ''dist/netbox.js'', ''dist/netbox-dark.css'']"
    by (simp add: result0_def)
  with res have r: "res = [(''dist/netbox-light.css'', ''.navbar{margin:0}''),
      (''dist/netbox-dark.css'', ''.navbar{margin:0}'')]"
    by (simp add: endsWith_def)
  from dist r have "files ?s' ''dist/netbox-light.css'' = Some ''.navbar{margin:0}''"
    and "files ?s' ''dist/netbox-dark.css'' = Some ''.navbar{margin:0}''"
    by simp_all
  moreover from other r have "files ?s' ''dist/netbox.js'' = files state0 ''dist/netbox.js''"
    by simp
  ultimately show ?thesis
    using purgecss_onEnd_env_ok w r by simp
qed

end
